theory Spec2Isabelle
  imports Complex_Main "HOL-Library.Word"
begin

section \<open>Asset model (model/Currency, model/Token)\<close>

text \<open>
  The model classes are generated from the schema; their shape is read off the code that
  consumes them (\<open>currency.isTypeOf\<close>, \<open>currency.token\<close>,
  \<open>currency.asset\<close>, \<open>currency.lendTokenId\<close>, \<open>currency.poolId\<close>,
  \<open>currency.token0\<close>/\<open>token1\<close>). \<open>Token\<close> is a string enum whose
  members print as their own names. Numeric ids are JavaScript numbers holding integers.
\<close>

datatype Token = DOT | IBTC | INTR | KSM | KBTC | KINT

datatype Currency =
    NativeToken Token
  | ForeignAsset int
  | LendToken int
  | LpTokenPair Currency Currency
  | StableLpToken int

fun isTypeOf :: "Currency \<Rightarrow> string" where
  "isTypeOf (NativeToken _) = ''NativeToken''"
| "isTypeOf (ForeignAsset _) = ''ForeignAsset''"
| "isTypeOf (LendToken _) = ''LendToken''"
| "isTypeOf (LpTokenPair _ _) = ''LpTokenPair''"
| "isTypeOf (StableLpToken _) = ''StableLpToken''"

fun Token_toString :: "Token \<Rightarrow> string" where
  "Token_toString DOT = ''DOT''"
| "Token_toString IBTC = ''IBTC''"
| "Token_toString INTR = ''INTR''"
| "Token_toString KSM = ''KSM''"
| "Token_toString KBTC = ''KBTC''"
| "Token_toString KINT = ''KINT''"

text \<open>Everything the code throws, with the data interpolated into the message.\<close>

datatype error =
    UnknownCurrencyTypeIndex string
  | UnknownNativeToken Token
  | UnsupportedCurrencyType string
  | StablePoolsStorageNotDefined
  | StablePoolNotFound int
  | UnexpectedPoolType int string
  | UnknownStablePoolsStorageVersion
  | CurrencyIndexNotFound int nat
  | PairStatusesStorageNotDefined
  | BigInvalidPrecision
  | BigIntSyntaxError string
  | AssertionFailed
  | CurrencyCountMismatch nat nat
  | UnexpectedCurrencyType string
  | CollaboratorError string

section \<open>Canonical ordering (mappings/utils/pools.ts)\<close>

text \<open>
  Modelled from the spec: \<open>invertMap\<close> of \<open>mappings/_utils\<close> is used here but not
  among the sources; it turns a table into the table read the other way round. A JavaScript
  \<open>Map\<close> built from pairs is an association list read with \<open>map_of\<close>; no key of the
  two tables below occurs twice.
\<close>

definition invertMap :: "('k \<times> 'v) list \<Rightarrow> ('v \<times> 'k) list" where
  "invertMap m = map (\<lambda>(k, v). (v, k)) m"

definition indexToCurrencyTypeMap :: "(int \<times> string) list" where
  "indexToCurrencyTypeMap =
     [(0, ''NativeToken''), (1, ''ForeignAsset''), (2, ''LendToken''),
      (3, ''LpToken''), (4, ''StableLpToken'')]"

definition currencyTypeToIndexMap :: "(string \<times> int) list" where
  "currencyTypeToIndexMap = invertMap indexToCurrencyTypeMap"

definition indexToNativeTokenMap :: "(int \<times> Token) list" where
  "indexToNativeTokenMap =
     [(0, DOT), (1, IBTC), (2, INTR), (10, KSM), (11, KBTC), (12, KINT)]"

definition nativeTokenToIndexMap :: "(Token \<times> int) list" where
  "nativeTokenToIndexMap = invertMap indexToNativeTokenMap"

definition compareCurrencyType :: "Currency \<Rightarrow> Currency \<Rightarrow> error + int" where
  "compareCurrencyType currency0 currency1 =
     (if isTypeOf currency0 = isTypeOf currency1 then Inr 0
      else
        (case map_of currencyTypeToIndexMap (isTypeOf currency0) of
           None \<Rightarrow> Inl (UnknownCurrencyTypeIndex (isTypeOf currency0))
         | Some typeIndex0 \<Rightarrow>
             (case map_of currencyTypeToIndexMap (isTypeOf currency1) of
                None \<Rightarrow> Inl (UnknownCurrencyTypeIndex (isTypeOf currency1))
              | Some typeIndex1 \<Rightarrow> Inr (typeIndex0 - typeIndex1))))"

fun currencyToIndex :: "Currency \<Rightarrow> error + int" where
  "currencyToIndex (NativeToken token) =
     (case map_of nativeTokenToIndexMap token of
        None \<Rightarrow> Inl (UnknownNativeToken token)
      | Some tokenIndex \<Rightarrow> Inr tokenIndex)"
| "currencyToIndex (ForeignAsset asset) = Inr asset"
| "currencyToIndex (LendToken lendTokenId) = Inr lendTokenId"
| "currencyToIndex (StableLpToken poolId) = Inr poolId"
| "currencyToIndex (LpTokenPair t0 t1) =
     Inl (UnsupportedCurrencyType (isTypeOf (LpTokenPair t0 t1)))"

definition compareCurrencies :: "Currency \<Rightarrow> Currency \<Rightarrow> error + int" where
  "compareCurrencies currency0 currency1 =
     (case compareCurrencyType currency0 currency1 of
        Inl e \<Rightarrow> Inl e
      | Inr typeCompare \<Rightarrow>
          if typeCompare \<noteq> 0 then Inr typeCompare
          else
            (case currencyToIndex currency0 of
               Inl e \<Rightarrow> Inl e
             | Inr index0 \<Rightarrow>
                 (case currencyToIndex currency1 of
                    Inl e \<Rightarrow> Inl e
                  | Inr index1 \<Rightarrow> Inr (index0 - index1))))"

definition orderCurrencies :: "Currency \<Rightarrow> Currency \<Rightarrow> error + (Currency \<times> Currency)" where
  "orderCurrencies currency0 currency1 =
     (case compareCurrencies currency0 currency1 of
        Inl e \<Rightarrow> Inl e
      | Inr c \<Rightarrow> if c > 0 then Inr (currency1, currency0) else Inr (currency0, currency1))"

section \<open>Stringification (mappings/encoding.ts)\<close>

text \<open>
  \<open>Number.prototype.toString\<close> on an integer-valued number of magnitude below 10^21,
  as every id read from the chain is: the decimal digits, with a leading minus sign for a
  negative one.
\<close>

function digitsOf :: "nat \<Rightarrow> string" where
  "digitsOf n =
     (if n < 10 then [char_of (48 + n)]
      else digitsOf (n div 10) @ [char_of (48 + n mod 10)])"
  by pat_completeness auto
termination
  by (relation "measure id") auto

definition Number_toString :: "int \<Rightarrow> string" where
  "Number_toString i = (if i < 0 then ''-'' @ digitsOf (nat (- i)) else digitsOf (nat i))"

fun currencyToString :: "Currency \<Rightarrow> string" where
  "currencyToString (LendToken lendTokenId) = ''lendToken_'' @ Number_toString lendTokenId"
| "currencyToString (ForeignAsset asset) = Number_toString asset"
| "currencyToString (NativeToken token) = Token_toString token"
| "currencyToString (StableLpToken poolId) = ''poolId_'' @ Number_toString poolId"
| "currencyToString (LpTokenPair token0 token1) =
     ''lpToken__'' @ currencyToString token0 @ ''__'' @ currencyToString token1"

definition inferGeneralPoolId :: "Currency \<Rightarrow> Currency \<Rightarrow> error + string" where
  "inferGeneralPoolId currency0 currency1 =
     (case orderCurrencies currency0 currency1 of
        Inl e \<Rightarrow> Inl e
      | Inr (first, second) \<Rightarrow>
          Inr (''('' @ currencyToString first @ '','' @ currencyToString second @ '')''))"

section \<open>Currency encoding (mappings/encoding.ts)\<close>

text \<open>
  The raw, per-spec-version chain types are generated code; their shape is read off the
  encoders.
  The token of a legacy (v6, v10, v15) currency id is named by its \<open>__kind\<close>, one of the
  six token names or, in the oldest definition, \<open>INTERBTC\<close>. \<open>Token[kind]\<close> reads
  the enum member of that name and is \<open>undefined\<close> where the enum has none, which is kept
  as \<open>None\<close>.
\<close>

datatype TokenKind =
  Kind_DOT | Kind_INTERBTC | Kind_IBTC | Kind_INTR | Kind_KSM | Kind_KBTC | Kind_KINT

fun Token_member :: "TokenKind \<Rightarrow> Token option" where
  "Token_member Kind_DOT = Some DOT"
| "Token_member Kind_IBTC = Some IBTC"
| "Token_member Kind_INTR = Some INTR"
| "Token_member Kind_KSM = Some KSM"
| "Token_member Kind_KBTC = Some KBTC"
| "Token_member Kind_KINT = Some KINT"
| "Token_member Kind_INTERBTC = None"

definition legacyCurrencyId_encode :: "TokenKind \<Rightarrow> Currency option" where
  "legacyCurrencyId_encode kind =
     (let token = (if kind = Kind_INTERBTC then Kind_IBTC else kind)
      in map_option NativeToken (Token_member token))"

text \<open>
  From spec version 1020000 on a token is named by one of the six enum names, so the raw
  token is kept as a \<open>Token\<close> and \<open>Token[kind]\<close> is that member.
\<close>

datatype LpTokenId =
    Lp_Token Token
  | Lp_ForeignAsset int
  | Lp_StableLpToken int

datatype CurrencyId =
    CurrencyId_Token Token
  | CurrencyId_ForeignAsset int
  | CurrencyId_LendToken int
  | CurrencyId_LpToken LpTokenId LpTokenId
  | CurrencyId_StableLpToken int

fun lpTokenId_encode :: "LpTokenId \<Rightarrow> Currency" where
  "lpTokenId_encode (Lp_StableLpToken v) = StableLpToken v"
| "lpTokenId_encode (Lp_ForeignAsset v) = ForeignAsset v"
| "lpTokenId_encode (Lp_Token k) = NativeToken k"

fun currencyId_encode :: "CurrencyId \<Rightarrow> Currency" where
  "currencyId_encode (CurrencyId_LendToken v) = LendToken v"
| "currencyId_encode (CurrencyId_ForeignAsset v) = ForeignAsset v"
| "currencyId_encode (CurrencyId_Token k) = NativeToken k"
| "currencyId_encode (CurrencyId_StableLpToken v) = lpTokenId_encode (Lp_StableLpToken v)"
| "currencyId_encode (CurrencyId_LpToken t0 t1) =
     LpTokenPair (lpTokenId_encode t0) (lpTokenId_encode t1)"

section \<open>Exchange-rate history (class BlockRates of the lending mappings)\<close>

text \<open>
  A rate is a JavaScript double that \<open>getRate\<close> stores and hands back without computing
  on it; it is carried as the rational its decimal literal denotes. What \<open>console.log\<close>
  prints is returned next to the result, one string per call.
\<close>

record Rate =
  block :: int
  symbol :: string
  rate :: rat

definition addRate :: "Rate list \<Rightarrow> int \<Rightarrow> string \<Rightarrow> rat \<Rightarrow> Rate list" where
  "addRate rates blk symb r = rates @ [\<lparr>block = blk, symbol = symb, rate = r\<rparr>]"



section \<open>Handler state\<close>

text \<open>
  What a handler can change: the lines given to \<open>ctx.log\<close> and \<open>console.log\<close>, the
  calls of \<open>entityBuffer.pushEntity\<close> in the order they are issued (entity class name and
  entity), the module-level stable-pool cache, the module-level rate history, and the reads
  of the \<open>DexStable.Pools\<close> storage item (one pool id per \<open>getAsV1021000\<close> call).
  A function that can throw returns the exception beside the state reached when it was
  thrown.
\<close>

datatype LogLine =
    LogWarn string
  | LogError string
  | LogErrorMessage error
  | ConsoleLog string

datatype MarketState = Pending | Supervision | Active

record 'h Loan =
  loan_id :: string
  loan_height :: 'h
  loan_timestamp :: int
  loan_userParachainAddress :: string
  loan_token :: Currency
  loan_amountBorrowed :: "int option"
  loan_amountRepaid :: "int option"
  loan_comment :: string

record 'h Deposit =
  deposit_id :: string
  deposit_height :: 'h
  deposit_timestamp :: int
  deposit_userParachainAddress :: string
  deposit_token :: Currency
  deposit_amountDeposited :: "int option"
  deposit_amountWithdrawn :: "int option"
  deposit_comment :: string

text \<open>
  A stored market and its activation point at each other; each holds the other's id here.
  The columns of a market that the activation handler does not touch are \<open>market_columns\<close>.
\<close>

record 'm LoanMarket =
  market_id :: string
  market_state :: MarketState
  market_activation :: "string option"
  market_columns :: 'm

record 'h LoanMarketActivation =
  activation_id :: string
  activation_market :: string
  activation_token :: Currency
  activation_height :: 'h
  activation_timestamp :: int

record 'h InterestAccrual =
  accrual_id :: string
  accrual_height :: 'h
  accrual_timestamp :: int
  accrual_underlyingCurrency :: Currency
  accrual_currencySymbol :: string
  accrual_totalBorrows :: int
  accrual_totalReserves :: int
  accrual_borrowIndex :: int
  accrual_utilizationRatio :: int
  accrual_borrowRate :: int
  accrual_supplyRate :: int
  accrual_exchangeRate :: int
  accrual_exchangeRateFloat :: rat
  accrual_comment :: string

text \<open>
  The cumulative volume and trade-count entities are built by \<open>utils/cumulativeVolumes\<close>,
  which is not modelled; they are values of a type \<open>'c\<close>.
\<close>

datatype ('h, 'm, 'c) Entity =
    E_Loan "'h Loan"
  | E_Deposit "'h Deposit"
  | E_LoanMarket "'m LoanMarket"
  | E_LoanMarketActivation "'h LoanMarketActivation"
  | E_InterestAccrual "'h InterestAccrual"
  | E_Cumulative 'c

record ('h, 'm, 'c) HandlerState =
  logLines :: "LogLine list"
  pushEntityCalls :: "(string \<times> ('h, 'm, 'c) Entity) list"
  stablePoolCurrenciesCache :: "int \<rightharpoonup> (Currency \<times> CurrencyId) list"
  cachedRates :: "Rate list"
  poolStorageReads :: "int list"

definition logLine ::
  "LogLine \<Rightarrow> ('h, 'm, 'c) HandlerState \<Rightarrow> ('h, 'm, 'c) HandlerState" where
  "logLine l st = st\<lparr>logLines := logLines st @ [l]\<rparr>"

definition pushEntity ::
  "string \<Rightarrow> ('h, 'm, 'c) Entity \<Rightarrow> ('h, 'm, 'c) HandlerState \<Rightarrow> ('h, 'm, 'c) HandlerState" where
  "pushEntity name entity st = st\<lparr>pushEntityCalls := pushEntityCalls st @ [(name, entity)]\<rparr>"

record SubstrateBlock =
  height :: int
  timestamp :: int

text \<open>
  A raw event as the generated event classes present it: \<open>isV1020000\<close> and
  \<open>isV1021000\<close> tell which encoding it has, and the matching \<open>asV...\<close> getter gives the
  decoded payload. An event of any other spec version is \<open>OtherSpecVersion\<close>.
\<close>

datatype ('a, 'b) RawEvent = V1020000 'a | V1021000 'b | OtherSpecVersion

record ('a, 'b) EventItem =
  event_id :: string
  event :: "('a, 'b) RawEvent"

section \<open>Stable-pool membership (mappings/utils/pools.ts)\<close>

text \<open>
  \<open>Pool_Unexpected\<close> is a pool of a kind other than \<open>Base\<close> and \<open>Meta\<close>, which the
  code provides for. The storage item at a block is absent for the spec version, readable
  in its 1021000 encoding, or of another encoding.
\<close>

datatype Pool =
    Pool_Base "CurrencyId list"
  | Pool_Meta "CurrencyId list"
  | Pool_Unexpected string

datatype DexStablePoolsStorage =
    StablePools_NotExists
  | StablePools_V1021000 "int \<Rightarrow> Pool option"
  | StablePools_OtherVersion

definition setPoolCurrencies ::
  "int \<Rightarrow> (Currency \<times> CurrencyId) list \<Rightarrow> ('h, 'm, 'c) HandlerState \<Rightarrow> ('h, 'm, 'c) HandlerState" where
  "setPoolCurrencies poolId currencies st =
     st\<lparr>stablePoolCurrenciesCache := (stablePoolCurrenciesCache st)(poolId \<mapsto> currencies)\<rparr>"

definition clearPoolCurrencies :: "('h, 'm, 'c) HandlerState \<Rightarrow> ('h, 'm, 'c) HandlerState" where
  "clearPoolCurrencies st = st\<lparr>stablePoolCurrenciesCache := Map.empty\<rparr>"

text \<open>
  \<open>readPool\<close> notes one \<open>getAsV1021000(poolId)\<close> call. \<open>storePoolCurrencies\<close> is what
  the lookup does with the currency ids of a pool it has read, the same for a base and for a
  meta pool: encode them, put them into the cache, and return the entry at the index or, if
  there is none, throw.
\<close>

definition readPool ::
  "int \<Rightarrow> ('h, 'm, 'c) HandlerState \<Rightarrow> ('h, 'm, 'c) HandlerState" where
  "readPool poolId st = st\<lparr>poolStorageReads := poolStorageReads st @ [poolId]\<rparr>"

definition storePoolCurrencies ::
  "int \<Rightarrow> nat \<Rightarrow> CurrencyId list \<Rightarrow> ('h, 'm, 'c) HandlerState \<Rightarrow>
   (error + (Currency \<times> CurrencyId)) \<times> ('h, 'm, 'c) HandlerState" where
  "storePoolCurrencies poolId index currencyIds st =
     (let currencies = map (\<lambda>currencyId. (currencyId_encode currencyId, currencyId)) currencyIds;
          st' = setPoolCurrencies poolId currencies st
      in if length currencies > index then (Inr (currencies ! index), st')
         else (Inl (CurrencyIndexNotFound poolId index), st'))"

definition getStablePoolCurrencyByIndex ::
  "DexStablePoolsStorage \<Rightarrow> int \<Rightarrow> nat \<Rightarrow> ('h, 'm, 'c) HandlerState \<Rightarrow>
   (error + (Currency \<times> CurrencyId)) \<times> ('h, 'm, 'c) HandlerState" where
  "getStablePoolCurrencyByIndex rawPoolStorage poolId index st =
     (case (case stablePoolCurrenciesCache st poolId of
              Some currencies \<Rightarrow>
                if length currencies > index then Some (currencies ! index) else None
            | None \<Rightarrow> None) of
        Some found \<Rightarrow> (Inr found, st)
      | None \<Rightarrow>
          (case rawPoolStorage of
             StablePools_NotExists \<Rightarrow> (Inl StablePoolsStorageNotDefined, st)
           | StablePools_V1021000 getAsV1021000 \<Rightarrow>
               (case getAsV1021000 poolId of
                  None \<Rightarrow> (Inl (StablePoolNotFound poolId), readPool poolId st)
                | Some (Pool_Base currencyIds) \<Rightarrow>
                    storePoolCurrencies poolId index currencyIds (readPool poolId st)
                | Some (Pool_Meta currencyIds) \<Rightarrow>
                    storePoolCurrencies poolId index currencyIds (readPool poolId st)
                | Some (Pool_Unexpected kind) \<Rightarrow>
                    (Inl (UnexpectedPoolType poolId kind), readPool poolId st))
           | StablePools_OtherVersion \<Rightarrow> (Inl UnknownStablePoolsStorageVersion, st)))"

section \<open>Lending handlers (mappings/event/loans.ts)\<close>

text \<open>
  The collaborators of the handlers that are not modelled are arguments:
  \<open>blockToHeight\<close> (block height and label to the stored height), \<open>address_encode\<close>
  (\<open>address.interlay.encode\<close>, account bytes to text), \<open>store_get\<close>
  (\<open>ctx.store.get(LoanMarket, {where: {id}})\<close>), \<open>symbolFromCurrency\<close>, and the texts
  the handlers assemble from exchange rates and floating-point products
  (\<open>commentText\<close>, \<open>numberText\<close>, and \<open>toFloat\<close> for \<open>Number(x) / 10 ** 18\<close>).
  They are taken as functions of their arguments. A handler returns the exception that
  leaves it, if any, and the state it reached.
\<close>

record AmountEventV1021000 =
  ev_accountId :: "8 word list"
  ev_currencyId :: CurrencyId
  ev_amount :: int

record ActivatedMarketV1021000 =
  am_underlyingCurrencyId :: CurrencyId

record InterestAccruedV1021000 =
  ia_underlyingCurrencyId :: CurrencyId
  ia_totalBorrows :: int
  ia_totalReserves :: int
  ia_borrowIndex :: int
  ia_utilizationRatio :: int
  ia_borrowRate :: int
  ia_supplyRate :: int
  ia_exchangeRate :: int

definition activatedMarket ::
  "(string \<Rightarrow> 'm LoanMarket option) \<Rightarrow> (int \<Rightarrow> string \<Rightarrow> 'h) \<Rightarrow> SubstrateBlock \<Rightarrow>
   (CurrencyId, ActivatedMarketV1021000) EventItem \<Rightarrow> ('h, 'm, 'c) HandlerState \<Rightarrow>
   error option \<times> ('h, 'm, 'c) HandlerState" where
  "activatedMarket store_get blockToHeight blk item st =
     (case (case event item of
              V1020000 e \<Rightarrow> Some e
            | V1021000 e \<Rightarrow> Some (am_underlyingCurrencyId e)
            | OtherSpecVersion \<Rightarrow> None) of
        None \<Rightarrow> (None, logLine (LogWarn ''UNKOWN EVENT VERSION: LoansActivatedMarketEvent'') st)
      | Some underlyingCurrencyId \<Rightarrow>
          (let currency = currencyId_encode underlyingCurrencyId;
               ident = currencyToString currency
           in case store_get (''loanMarket_'' @ ident) of
                None \<Rightarrow>
                  (None,
                   logLine (LogWarn
                     ''WARNING: ActivatedMarket event did not match any existing LoanMarkets! Skipping.'')
                     st)
              | Some marketDb \<Rightarrow>
                  (let h = blockToHeight (height blk) ''ActivatedMarket'';
                       activation =
                         \<lparr>activation_id = market_id marketDb,
                          activation_market = market_id marketDb,
                          activation_token = currency,
                          activation_height = h,
                          activation_timestamp = timestamp blk\<rparr>;
                       marketDb' =
                         marketDb\<lparr>market_state := Active,
                                  market_activation := Some (activation_id activation)\<rparr>
                   in (None,
                       logLine (ConsoleLog (''Activated '' @ market_id marketDb'))
                         (pushEntity ''LoanMarket'' (E_LoanMarket marketDb')
                           (pushEntity ''LoanMarketActivation''
                             (E_LoanMarketActivation activation) st))))))"

definition borrow ::
  "(int \<Rightarrow> string \<Rightarrow> 'h) \<Rightarrow> (8 word list \<Rightarrow> string) \<Rightarrow>
   (string \<Rightarrow> Currency \<Rightarrow> int \<Rightarrow> int \<Rightarrow> string) \<Rightarrow> SubstrateBlock \<Rightarrow>
   (8 word list \<times> CurrencyId \<times> int, AmountEventV1021000) EventItem \<Rightarrow>
   ('h, 'm, 'c) HandlerState \<Rightarrow> error option \<times> ('h, 'm, 'c) HandlerState" where
  "borrow blockToHeight address_encode commentText blk item st =
     (case (case event item of
              V1020000 (accountId, myCurrencyId, amount) \<Rightarrow> Some (accountId, myCurrencyId, amount)
            | V1021000 e \<Rightarrow> Some (ev_accountId e, ev_currencyId e, ev_amount e)
            | OtherSpecVersion \<Rightarrow> None) of
        None \<Rightarrow> (None, logLine (LogWarn ''UNKOWN EVENT VERSION: LoansBorrowedEvent'') st)
      | Some (accountId, myCurrencyId, amount) \<Rightarrow>
          (let currency = currencyId_encode myCurrencyId;
               h = blockToHeight (height blk) ''LoansBorrowed'';
               account = address_encode accountId;
               comment = commentText account currency amount (timestamp blk)
           in (None,
               pushEntity ''Loan''
                 (E_Loan
                   \<lparr>loan_id = event_id item,
                    loan_height = h,
                    loan_timestamp = timestamp blk,
                    loan_userParachainAddress = account,
                    loan_token = currency,
                    loan_amountBorrowed = Some amount,
                    loan_amountRepaid = None,
                    loan_comment = comment\<rparr>)
                 st)))"

definition depositForLending ::
  "(int \<Rightarrow> string \<Rightarrow> 'h) \<Rightarrow> (8 word list \<Rightarrow> string) \<Rightarrow>
   (string \<Rightarrow> Currency \<Rightarrow> int \<Rightarrow> string) \<Rightarrow> SubstrateBlock \<Rightarrow>
   (8 word list \<times> CurrencyId \<times> int, AmountEventV1021000) EventItem \<Rightarrow>
   ('h, 'm, 'c) HandlerState \<Rightarrow> error option \<times> ('h, 'm, 'c) HandlerState" where
  "depositForLending blockToHeight address_encode commentText blk item st =
     (case (case event item of
              V1020000 (accountId, myCurrencyId, amount) \<Rightarrow> Some (accountId, myCurrencyId, amount)
            | V1021000 e \<Rightarrow> Some (ev_accountId e, ev_currencyId e, ev_amount e)
            | OtherSpecVersion \<Rightarrow> None) of
        None \<Rightarrow> (None, logLine (LogWarn ''UNKOWN EVENT VERSION: LoansDepositedEvent'') st)
      | Some (accountId, myCurrencyId, amount) \<Rightarrow>
          (let currency = currencyId_encode myCurrencyId;
               h = blockToHeight (height blk) ''Deposit'';
               account = address_encode accountId;
               comment = commentText account currency amount
           in (None,
               pushEntity ''Deposit''
                 (E_Deposit
                   \<lparr>deposit_id = event_id item,
                    deposit_height = h,
                    deposit_timestamp = timestamp blk,
                    deposit_userParachainAddress = account,
                    deposit_token = currency,
                    deposit_amountDeposited = Some amount,
                    deposit_amountWithdrawn = None,
                    deposit_comment = comment\<rparr>)
                 st)))"

text \<open>
  \<open>accrueInterest\<close> reads \<open>rawEvent.asV1021000\<close> without asking \<open>isV1021000\<close> first.
  The getter belongs to the generated event classes; what it does with an event of another
  encoding is its own affair, so it is the argument \<open>asV1021000\<close>, which gives the payload
  or throws.
\<close>

definition accrueInterest ::
  "(('a, InterestAccruedV1021000) RawEvent \<Rightarrow> error + InterestAccruedV1021000) \<Rightarrow>
   (int \<Rightarrow> rat) \<Rightarrow> (int \<Rightarrow> string \<Rightarrow> 'h) \<Rightarrow> (Currency \<Rightarrow> string) \<Rightarrow> (rat \<Rightarrow> string) \<Rightarrow>
   SubstrateBlock \<Rightarrow> ('a, InterestAccruedV1021000) EventItem \<Rightarrow>
   ('h, 'm, 'c) HandlerState \<Rightarrow> error option \<times> ('h, 'm, 'c) HandlerState" where
  "accrueInterest asV1021000 toFloat blockToHeight symbolFromCurrency numberText blk item st =
     (case asV1021000 (event item) of
        Inl e \<Rightarrow> (Some e, st)
      | Inr interestAccrued \<Rightarrow>
          (let ex = toFloat (ia_exchangeRate interestAccrued);
               currency = currencyId_encode (ia_underlyingCurrencyId interestAccrued);
               h = blockToHeight (height blk) ''Interest Accrued'';
               symb = symbolFromCurrency currency;
               st1 = st\<lparr>cachedRates := addRate (cachedRates st) (height blk) symb ex\<rparr>
           in (None,
               pushEntity ''InterestAccrual''
                 (E_InterestAccrual
                   \<lparr>accrual_id = event_id item,
                    accrual_height = h,
                    accrual_timestamp = timestamp blk,
                    accrual_underlyingCurrency = currency,
                    accrual_currencySymbol = symb,
                    accrual_totalBorrows = ia_totalBorrows interestAccrued,
                    accrual_totalReserves = ia_totalReserves interestAccrued,
                    accrual_borrowIndex = ia_borrowIndex interestAccrued,
                    accrual_utilizationRatio = ia_utilizationRatio interestAccrued,
                    accrual_borrowRate = ia_borrowRate interestAccrued,
                    accrual_supplyRate = ia_supplyRate interestAccrued,
                    accrual_exchangeRate = ia_exchangeRate interestAccrued,
                    accrual_exchangeRateFloat = ex,
                    accrual_comment =
                      ''Exchange rate for '' @ symb @ '' now '' @ numberText ex\<rparr>)
                 st1)))"

section \<open>Swap handlers (mappings/event/dex.ts)\<close>

text \<open>
  A swap leg as the handlers build it has a currency and an atomic amount; the leg that
  \<open>buildNewSwapEntity\<close> reads has the raw currency id and the account as well. The
  currency of a leg is of type \<open>'cur\<close>: the standard-pool handler puts a \<open>Currency\<close>
  there, the stable-pool handler puts what \<open>getStablePoolCurrencyByIndex\<close> gave it.
\<close>

record 'cur SwapDetailsAmount =
  currency :: 'cur
  atomicAmount :: int

record 'cur SwapDetailsAccountAmount = "'cur SwapDetailsAmount" +
  currencyId :: CurrencyId
  accountId :: string

record 'leg SwapDetails =
  swapFrom :: 'leg
  swapTo :: 'leg

fun createSwapDetailsAmounts_loop ::
  "(Currency \<Rightarrow> bool) \<Rightarrow> (Currency \<times> int) list \<Rightarrow> error + Currency SwapDetailsAmount list" where
  "createSwapDetailsAmounts_loop isPooledToken [] = Inr []"
| "createSwapDetailsAmounts_loop isPooledToken ((cur, atomic) # rest) =
     (if \<not> isPooledToken cur then Inl (UnexpectedCurrencyType (isTypeOf cur))
      else
        (case createSwapDetailsAmounts_loop isPooledToken rest of
           Inl e \<Rightarrow> Inl e
         | Inr amounts \<Rightarrow> Inr (\<lparr>currency = cur, atomicAmount = atomic\<rparr> # amounts)))"

definition createSwapDetailsAmounts ::
  "(Currency \<Rightarrow> bool) \<Rightarrow> Currency list \<Rightarrow> int list \<Rightarrow> error + Currency SwapDetailsAmount list" where
  "createSwapDetailsAmounts isPooledToken currencies atomicBalances =
     (if length currencies \<noteq> length atomicBalances
      then Inl (CurrencyCountMismatch (length currencies) (length atomicBalances))
      else createSwapDetailsAmounts_loop isPooledToken (zip currencies atomicBalances))"

fun createPairWiseSwapDetails :: "'leg list \<Rightarrow> 'leg SwapDetails list" where
  "createPairWiseSwapDetails (a # b # rest) =
     \<lparr>swapFrom = a, swapTo = b\<rparr> # createPairWiseSwapDetails (b # rest)"
| "createPairWiseSwapDetails _ = []"

text \<open>
  The six update functions of \<open>utils/cumulativeVolumes\<close> are arguments under their own
  names. Each is given the store and the entity buffer and returns the entity to push; it is
  taken as a function of its other arguments and of the calls of \<open>pushEntity\<close> made so far,
  and as not pushing anything itself. The four that \<open>Promise.all\<close> starts together all see
  the buffer as it is before any of their results is pushed.
\<close>

definition updateTotalAndPerAccountVolumesAndTradeCounts ::
  "(int \<Rightarrow> 'leg list \<Rightarrow> string \<Rightarrow> (string \<times> ('h, 'm, 'c) Entity) list \<Rightarrow> 'c) \<Rightarrow>
   (int \<Rightarrow> 'leg list \<Rightarrow> (string \<times> ('h, 'm, 'c) Entity) list \<Rightarrow> 'c) \<Rightarrow>
   (int \<Rightarrow> string \<Rightarrow> (string \<times> ('h, 'm, 'c) Entity) list \<Rightarrow> 'c) \<Rightarrow>
   (int \<Rightarrow> (string \<times> ('h, 'm, 'c) Entity) list \<Rightarrow> 'c) \<Rightarrow>
   int \<Rightarrow> 'leg list \<Rightarrow> string \<Rightarrow> ('h, 'm, 'c) HandlerState \<Rightarrow> ('h, 'm, 'c) HandlerState" where
  "updateTotalAndPerAccountVolumesAndTradeCounts updateCumulativeDexVolumesPerAccount
     updateCumulativeDexTotalVolumes updateCumulativeDexTradeCountPerAccount
     updateCumulativeDexTotalTradeCount blockTimestamp amounts account st =
     (let volumePerAccountEntity =
            updateCumulativeDexVolumesPerAccount blockTimestamp amounts account (pushEntityCalls st);
          totalVolumeEntity =
            updateCumulativeDexTotalVolumes blockTimestamp amounts (pushEntityCalls st);
          tradeCountPerAccountEntity =
            updateCumulativeDexTradeCountPerAccount blockTimestamp account (pushEntityCalls st);
          totalCountEntity =
            updateCumulativeDexTotalTradeCount blockTimestamp (pushEntityCalls st)
      in pushEntity ''CumulativeDexTradeCountPerAccount'' (E_Cumulative tradeCountPerAccountEntity)
           (pushEntity ''CumulativeDexTradeCount'' (E_Cumulative totalCountEntity)
             (pushEntity ''CumulativeDexTradingVolumePerAccount''
                (E_Cumulative volumePerAccountEntity)
               (pushEntity ''CumulativeDexTradingVolume'' (E_Cumulative totalVolumeEntity) st))))"

text \<open>The loop over \<open>swapDetailsList\<close> of \<open>dexGeneralAssetSwap\<close>.\<close>

fun dexGeneralAssetSwap_pools ::
  "(int \<Rightarrow> 'leg SwapDetails \<Rightarrow> (string \<times> ('h, 'm, 'c) Entity) list \<Rightarrow> 'c) \<Rightarrow> int \<Rightarrow>
   'leg SwapDetails list \<Rightarrow> ('h, 'm, 'c) HandlerState \<Rightarrow> ('h, 'm, 'c) HandlerState" where
  "dexGeneralAssetSwap_pools updateCumulativeDexVolumesForStandardPool blockTimestamp [] st = st"
| "dexGeneralAssetSwap_pools updateCumulativeDexVolumesForStandardPool blockTimestamp
     (swapDetails # rest) st =
     (let entity =
            updateCumulativeDexVolumesForStandardPool blockTimestamp swapDetails
              (pushEntityCalls st)
      in dexGeneralAssetSwap_pools updateCumulativeDexVolumesForStandardPool blockTimestamp rest
           (pushEntity ''CumulativeDexTradingVolumePerPool'' (E_Cumulative entity) st))"

definition dexGeneralAssetSwap ::
  "(Currency \<Rightarrow> bool) \<Rightarrow> (8 word list \<Rightarrow> string) \<Rightarrow>
   (int \<Rightarrow> Currency SwapDetailsAmount SwapDetails \<Rightarrow> (string \<times> ('h, 'm, 'c) Entity) list \<Rightarrow> 'c) \<Rightarrow>
   (int \<Rightarrow> Currency SwapDetailsAmount list \<Rightarrow> string \<Rightarrow> (string \<times> ('h, 'm, 'c) Entity) list \<Rightarrow> 'c) \<Rightarrow>
   (int \<Rightarrow> Currency SwapDetailsAmount list \<Rightarrow> (string \<times> ('h, 'm, 'c) Entity) list \<Rightarrow> 'c) \<Rightarrow>
   (int \<Rightarrow> string \<Rightarrow> (string \<times> ('h, 'm, 'c) Entity) list \<Rightarrow> 'c) \<Rightarrow>
   (int \<Rightarrow> (string \<times> ('h, 'm, 'c) Entity) list \<Rightarrow> 'c) \<Rightarrow>
   SubstrateBlock \<Rightarrow>
   ('a, 8 word list \<times> 8 word list \<times> CurrencyId list \<times> int list) EventItem \<Rightarrow>
   ('h, 'm, 'c) HandlerState \<Rightarrow> error option \<times> ('h, 'm, 'c) HandlerState" where
  "dexGeneralAssetSwap isPooledToken address_encode updateCumulativeDexVolumesForStandardPool
     updateCumulativeDexVolumesPerAccount updateCumulativeDexTotalVolumes
     updateCumulativeDexTradeCountPerAccount updateCumulativeDexTotalTradeCount blk item st =
     (case event item of
        V1021000 (accountIdRaw, recipient, swapPath, balances) \<Rightarrow>
          (let currencies = map currencyId_encode swapPath;
               atomicBalances = balances;
               account = address_encode accountIdRaw
           in case find (\<lambda>cur. \<not> isPooledToken cur) currencies of
                Some cur \<Rightarrow>
                  (None,
                   logLine (LogError (''Unexpected currency type '' @ isTypeOf cur @
                     '' in pool, skip processing of DexGeneralAssetSwapEvent'')) st)
              | None \<Rightarrow>
                  (case createSwapDetailsAmounts isPooledToken currencies atomicBalances of
                     Inl e \<Rightarrow> (None, logLine (LogErrorMessage e) st)
                   | Inr amounts \<Rightarrow>
                       (let swapDetailsList = createPairWiseSwapDetails amounts;
                            blockTimestamp = timestamp blk
                        in (None,
                            updateTotalAndPerAccountVolumesAndTradeCounts
                              updateCumulativeDexVolumesPerAccount updateCumulativeDexTotalVolumes
                              updateCumulativeDexTradeCountPerAccount
                              updateCumulativeDexTotalTradeCount blockTimestamp amounts account
                              (dexGeneralAssetSwap_pools updateCumulativeDexVolumesForStandardPool
                                 blockTimestamp swapDetailsList st)))))
      | _ \<Rightarrow> (None, logLine (LogWarn ''UNKOWN EVENT VERSION: DexGeneral.AssetSwap'') st))"

record CurrencyExchangeV1021000 =
  ce_poolId :: int
  ce_inIndex :: nat
  ce_outIndex :: nat
  ce_inAmount :: int
  ce_outAmount :: int
  ce_who :: "8 word list"

text \<open>
  \<open>dexStableCurrencyExchange\<close> keeps the pair that \<open>getStablePoolCurrencyByIndex\<close>
  returns as one value: that pair is what it hands to \<open>isPooledToken\<close> and puts into the
  swap legs, and a JavaScript array has no \<open>isTypeOf\<close>, which prints as \<open>undefined\<close>.
\<close>

definition dexStableCurrencyExchange ::
  "DexStablePoolsStorage \<Rightarrow> (Currency \<times> CurrencyId \<Rightarrow> bool) \<Rightarrow> (8 word list \<Rightarrow> string) \<Rightarrow>
   (int \<Rightarrow> int \<Rightarrow> (Currency \<times> CurrencyId) SwapDetailsAmount SwapDetails \<Rightarrow>
      (string \<times> ('h, 'm, 'c) Entity) list \<Rightarrow> 'c) \<Rightarrow>
   (int \<Rightarrow> (Currency \<times> CurrencyId) SwapDetailsAmount list \<Rightarrow> string \<Rightarrow>
      (string \<times> ('h, 'm, 'c) Entity) list \<Rightarrow> 'c) \<Rightarrow>
   (int \<Rightarrow> (Currency \<times> CurrencyId) SwapDetailsAmount list \<Rightarrow>
      (string \<times> ('h, 'm, 'c) Entity) list \<Rightarrow> 'c) \<Rightarrow>
   (int \<Rightarrow> string \<Rightarrow> (string \<times> ('h, 'm, 'c) Entity) list \<Rightarrow> 'c) \<Rightarrow>
   (int \<Rightarrow> (string \<times> ('h, 'm, 'c) Entity) list \<Rightarrow> 'c) \<Rightarrow>
   SubstrateBlock \<Rightarrow> ('a, CurrencyExchangeV1021000) EventItem \<Rightarrow>
   ('h, 'm, 'c) HandlerState \<Rightarrow> error option \<times> ('h, 'm, 'c) HandlerState" where
  "dexStableCurrencyExchange rawPoolStorage isPooledToken address_encode
     updateCumulativeDexVolumesForStablePool updateCumulativeDexVolumesPerAccount
     updateCumulativeDexTotalVolumes updateCumulativeDexTradeCountPerAccount
     updateCumulativeDexTotalTradeCount blk item st =
     (case event item of
        V1021000 e \<Rightarrow>
          (let poolId = ce_poolId e;
               account = address_encode (ce_who e)
           in case getStablePoolCurrencyByIndex rawPoolStorage poolId (ce_outIndex e) st of
                (Inl err, st1) \<Rightarrow> (Some err, st1)
              | (Inr outCurrency, st1) \<Rightarrow>
                  (case getStablePoolCurrencyByIndex rawPoolStorage poolId (ce_inIndex e) st1 of
                     (Inl err, st2) \<Rightarrow> (Some err, st2)
                   | (Inr inCurrency, st2) \<Rightarrow>
                       if \<not> isPooledToken inCurrency then
                         (None,
                          logLine (LogError
                            ''Unexpected currencyIn type undefined, skip processing of DexGeneralAssetSwapEvent'')
                            st2)
                       else if \<not> isPooledToken outCurrency then
                         (None,
                          logLine (LogError
                            ''Unexpected currencyOut type undefined, skip processing of DexGeneralAssetSwapEvent'')
                            st2)
                       else
                         (let swapDetails =
                                \<lparr>swapFrom = \<lparr>currency = inCurrency, atomicAmount = ce_inAmount e\<rparr>,
                                 swapTo = \<lparr>currency = outCurrency, atomicAmount = ce_outAmount e\<rparr>\<rparr>;
                              amounts = [swapFrom swapDetails, swapTo swapDetails];
                              blockTimestamp = timestamp blk;
                              entity =
                                updateCumulativeDexVolumesForStablePool blockTimestamp poolId
                                  swapDetails (pushEntityCalls st2)
                          in (None,
                              updateTotalAndPerAccountVolumesAndTradeCounts
                                updateCumulativeDexVolumesPerAccount updateCumulativeDexTotalVolumes
                                updateCumulativeDexTradeCountPerAccount
                                updateCumulativeDexTotalTradeCount blockTimestamp amounts account
                                (pushEntity ''CumulativeDexTradingVolumePerPool''
                                   (E_Cumulative entity) st2)))))
      | _ \<Rightarrow> (None, logLine (LogWarn ''UNKOWN EVENT VERSION: DexStable.CurrencyExchange'') st))"

section \<open>Swap entities (mappings/utils/pools.ts)\<close>

datatype PoolType = Standard | Stable

text \<open>The status of a pair in \<open>DexGeneral.PairStatuses\<close>; a trading pair has a fee rate in
  basis points.\<close>

datatype PairStatus = Trading int | Bootstrap | Disable

datatype DexGeneralPairStatusesStorage =
    PairStatuses_NotExists
  | PairStatuses_V1021000 "CurrencyId \<times> CurrencyId \<Rightarrow> PairStatus"
  | PairStatuses_OtherVersion

text \<open>
  \<open>Big\<close> of the library big.js is an exact decimal: \<open>Big(n).mul(0.0001)\<close> and
  \<open>mul\<close> by an amount are products of rationals. Its \<open>toPrecision(sd, rm)\<close> takes the
  number of significant digits \<open>sd\<close>, an integer from 1 to 1e6, and throws
  \<open>[big.js] Invalid precision\<close> for any other \<open>sd\<close>; what it prints for a valid one is
  the argument \<open>render\<close>. \<open>BigInt(string)\<close> is the argument \<open>BigInt_of\<close>, and
  \<open>createPooledAmount\<close> of \<open>utils/cumulativeVolumes\<close> is an argument too.
\<close>

datatype RoundingMode = RoundDown | RoundHalfUp | RoundHalfEven | RoundUp

definition Big_toPrecision ::
  "(rat \<Rightarrow> nat \<Rightarrow> RoundingMode \<Rightarrow> string) \<Rightarrow> rat \<Rightarrow> int \<Rightarrow> RoundingMode \<Rightarrow> error + string" where
  "Big_toPrecision render x sd rm =
     (if sd < 1 \<or> sd > 1000000 then Inl BigInvalidPrecision else Inr (render x (nat sd) rm))"

record ('h, 'p) Swap =
  swap_id :: string
  swap_height :: 'h
  swap_timestamp :: int
  swap_fromAccount :: string
  swap_toAccount :: string
  swap_from :: 'p
  swap_to :: 'p
  swap_fees :: 'p
  swap_feeRate :: rat

text \<open>The fee rate looked up for a swap, the first part of \<open>buildNewSwapEntity\<close>.\<close>

definition buildNewSwapEntity_feeRate ::
  "DexGeneralPairStatusesStorage \<Rightarrow> PoolType \<Rightarrow>
   Currency SwapDetailsAccountAmount SwapDetails \<Rightarrow> error + rat" where
  "buildNewSwapEntity_feeRate dexGeneralStorage poolType swapDetails =
     (if poolType = Standard then
        (case compareCurrencies (currency (swapFrom swapDetails))
                (currency (swapTo swapDetails)) of
           Inl e \<Rightarrow> Inl e
         | Inr currencyCompareValue \<Rightarrow>
             (let currencyPairKey =
                    (if currencyCompareValue < 0
                     then (currencyId (swapFrom swapDetails), currencyId (swapTo swapDetails))
                     else (currencyId (swapTo swapDetails), currencyId (swapFrom swapDetails)))
              in case dexGeneralStorage of
                   PairStatuses_NotExists \<Rightarrow> Inl PairStatusesStorageNotDefined
                 | PairStatuses_V1021000 getAsV1021000 \<Rightarrow>
                     (case getAsV1021000 currencyPairKey of
                        Trading feeRate \<Rightarrow> Inr (of_int feeRate * (1 / 10000))
                      | _ \<Rightarrow> Inr 0)
                 | PairStatuses_OtherVersion \<Rightarrow> Inr 0))
      else Inr 0)"

text \<open>The entity that \<open>new Swap({...})\<close> builds at the end of \<open>buildNewSwapEntity\<close>.\<close>

definition buildNewSwapEntity_entity ::
  "'h \<Rightarrow> int \<Rightarrow> Currency SwapDetailsAccountAmount SwapDetails \<Rightarrow> 'p \<Rightarrow> 'p \<Rightarrow> 'p \<Rightarrow> rat \<Rightarrow>
   ('h, 'p) Swap" where
  "buildNewSwapEntity_entity h blockTimestamp swapDetails fromAmount toAmount feesAmount feeRate =
     \<lparr>swap_id = ''abc'',
      swap_height = h,
      swap_timestamp = blockTimestamp,
      swap_fromAccount = accountId (swapFrom swapDetails),
      swap_toAccount = accountId (swapTo swapDetails),
      swap_from = fromAmount,
      swap_to = toAmount,
      swap_fees = feesAmount,
      swap_feeRate = feeRate\<rparr>"

definition buildNewSwapEntity ::
  "DexGeneralPairStatusesStorage \<Rightarrow> (Currency SwapDetailsAccountAmount \<Rightarrow> 'p) \<Rightarrow>
   (rat \<Rightarrow> nat \<Rightarrow> RoundingMode \<Rightarrow> string) \<Rightarrow> (string \<Rightarrow> error + int) \<Rightarrow>
   PoolType \<Rightarrow> Currency SwapDetailsAccountAmount SwapDetails \<Rightarrow> 'h \<Rightarrow> int \<Rightarrow>
   error + ('h, 'p) Swap" where
  "buildNewSwapEntity dexGeneralStorage createPooledAmount render BigInt_of poolType swapDetails
     h blockTimestamp =
     (case buildNewSwapEntity_feeRate dexGeneralStorage poolType swapDetails of
        Inl e \<Rightarrow> Inl e
      | Inr feeRate \<Rightarrow>
          (case Big_toPrecision render
                  (feeRate * of_int (atomicAmount (swapFrom swapDetails))) 0 RoundDown of
             Inl e \<Rightarrow> Inl e
           | Inr adjustedAmount \<Rightarrow>
               (case BigInt_of adjustedAmount of
                  Inl e \<Rightarrow> Inl e
                | Inr feeAtomic \<Rightarrow>
                    (let feeDetails = (swapFrom swapDetails)\<lparr>atomicAmount := feeAtomic\<rparr>
                     in Inr (buildNewSwapEntity_entity h blockTimestamp swapDetails
                               (createPooledAmount (swapFrom swapDetails))
                               (createPooledAmount (swapTo swapDetails))
                               (createPooledAmount feeDetails) feeRate)))))"

section \<open>Properties of the canonical ordering\<close>

lemmas tables = currencyTypeToIndexMap_def indexToCurrencyTypeMap_def
  nativeTokenToIndexMap_def indexToNativeTokenMap_def invertMap_def

lemma typeIndex_lookup:
  "map_of currencyTypeToIndexMap ''NativeToken'' = Some 0"
  "map_of currencyTypeToIndexMap ''ForeignAsset'' = Some 1"
  "map_of currencyTypeToIndexMap ''LendToken'' = Some 2"
  "map_of currencyTypeToIndexMap ''LpToken'' = Some 3"
  "map_of currencyTypeToIndexMap ''StableLpToken'' = Some 4"
  "map_of currencyTypeToIndexMap ''LpTokenPair'' = None"
  by (simp_all add: tables)

lemma tokenIndex_lookup:
  "map_of nativeTokenToIndexMap t =
     Some (case t of DOT \<Rightarrow> 0 | IBTC \<Rightarrow> 1 | INTR \<Rightarrow> 2 | KSM \<Rightarrow> 10 | KBTC \<Rightarrow> 11 | KINT \<Rightarrow> 12)"
  by (cases t) (simp_all add: tables)

lemma compareCurrencies_flip:
  "compareCurrencies b a = map_sum id uminus (compareCurrencies a b)"
  by (cases a; cases b)
     (simp_all add: compareCurrencies_def compareCurrencyType_def typeIndex_lookup
        tokenIndex_lookup)

lemma compareCurrencies_zero_iff:
  "isTypeOf a \<noteq> ''LpTokenPair'' \<Longrightarrow> isTypeOf b \<noteq> ''LpTokenPair'' \<Longrightarrow>
   (compareCurrencies a b = Inr 0) = (a = b)"
  apply (cases a; cases b)
     apply (simp_all add: compareCurrencies_def compareCurrencyType_def typeIndex_lookup
        tokenIndex_lookup)
  subgoal for s t by (cases s; cases t) simp_all
  done

lemma compareCurrencies_zero_supported:
  "compareCurrencies a b = Inr 0 \<Longrightarrow>
   isTypeOf a \<noteq> ''LpTokenPair'' \<and> isTypeOf b \<noteq> ''LpTokenPair''"
  by (cases a; cases b)
     (simp_all add: compareCurrencies_def compareCurrencyType_def typeIndex_lookup
        tokenIndex_lookup)

lemma supported_rank_index:
  assumes "isTypeOf a \<noteq> ''LpTokenPair''"
  shows "\<exists>r i. map_of currencyTypeToIndexMap (isTypeOf a) = Some r \<and> currencyToIndex a = Inr i"
  using assms by (cases a) (simp_all add: typeIndex_lookup tokenIndex_lookup)

lemma same_type_same_rank:
  assumes "map_of currencyTypeToIndexMap (isTypeOf a) = Some ra"
    and "map_of currencyTypeToIndexMap (isTypeOf b) = Some rb"
  shows "(isTypeOf a = isTypeOf b) = (ra = rb)"
  using assms by (cases a; cases b) (simp_all add: typeIndex_lookup)

lemma compareCurrencies_lex:
  assumes "map_of currencyTypeToIndexMap (isTypeOf a) = Some ra"
    and "map_of currencyTypeToIndexMap (isTypeOf b) = Some rb"
    and "currencyToIndex a = Inr ia" and "currencyToIndex b = Inr ib"
  shows "compareCurrencies a b = Inr (if ra \<noteq> rb then ra - rb else ia - ib)"
  using assms same_type_same_rank [OF assms(1,2)]
  by (simp add: compareCurrencies_def compareCurrencyType_def)

lemma compareCurrencies_trans:
  assumes "isTypeOf a \<noteq> ''LpTokenPair''" "isTypeOf b \<noteq> ''LpTokenPair''"
    "isTypeOf c \<noteq> ''LpTokenPair''"
    and "compareCurrencies a b = Inr m" "m < 0" "compareCurrencies b c = Inr n" "n < 0"
  shows "\<exists>k<0. compareCurrencies a c = Inr k"
proof -
  obtain ra ia where a:
    "map_of currencyTypeToIndexMap (isTypeOf a) = Some ra" "currencyToIndex a = Inr ia"
    using supported_rank_index [OF assms(1)] by blast
  obtain rb ib where b:
    "map_of currencyTypeToIndexMap (isTypeOf b) = Some rb" "currencyToIndex b = Inr ib"
    using supported_rank_index [OF assms(2)] by blast
  obtain rc ic where c:
    "map_of currencyTypeToIndexMap (isTypeOf c) = Some rc" "currencyToIndex c = Inr ic"
    using supported_rank_index [OF assms(3)] by blast
  have ab: "m = (if ra \<noteq> rb then ra - rb else ia - ib)"
    using compareCurrencies_lex [OF a(1) b(1) a(2) b(2)] assms(4) by simp
  have bc: "n = (if rb \<noteq> rc then rb - rc else ib - ic)"
    using compareCurrencies_lex [OF b(1) c(1) b(2) c(2)] assms(6) by simp
  have ac: "compareCurrencies a c = Inr (if ra \<noteq> rc then ra - rc else ia - ic)"
    by (rule compareCurrencies_lex [OF a(1) c(1) a(2) c(2)])
  have "(if ra \<noteq> rc then ra - rc else ia - ic) < 0"
    using ab bc assms(5,7) by (auto split: if_splits)
  with ac show ?thesis by blast
qed

text \<open>
  C1, as stated, fails: \<open>compare\<close> does not return a value in \<open>{-1, 0, 1}\<close>. Comparing
  the native tokens KSM and DOT gives the difference of their indices, 10.
\<close>

theorem compareCurrencies_not_sign_counterexample:
  "compareCurrencies (NativeToken KSM) (NativeToken DOT) = Inr 10 \<and> (10::int) \<notin> {- 1, 0, 1}"
  by (simp add: compareCurrencies_def compareCurrencyType_def tokenIndex_lookup)

text \<open>
  C1, amended. For assets \<open>a\<close>, \<open>b\<close>, \<open>c\<close> of the variants NativeToken, ForeignAsset,
  LendToken and StableLpToken, \<open>compareCurrencies a b\<close> returns an integer: the difference of
  the variant-type ranks when these differ, and the difference of the variant-specific indices
  otherwise. Its sign is a strict total order: it is zero exactly when \<open>a = b\<close>, swapping the
  arguments negates it, and "negative" is transitive. The rank table is NativeToken 0,
  ForeignAsset 1, LendToken 2, LpToken 3, StableLpToken 4; the token indices are DOT 0, IBTC 1,
  INTR 2, KSM 10, KBTC 11, KINT 12; every other variant is indexed by its own numeric id.
\<close>

theorem compareCurrencies_total_order:
  assumes "isTypeOf a \<noteq> ''LpTokenPair''" and "isTypeOf b \<noteq> ''LpTokenPair''"
    and "isTypeOf c \<noteq> ''LpTokenPair''"
  shows
    "(\<exists>ra rb ia ib.
        map_of currencyTypeToIndexMap (isTypeOf a) = Some ra \<and>
        map_of currencyTypeToIndexMap (isTypeOf b) = Some rb \<and>
        currencyToIndex a = Inr ia \<and> currencyToIndex b = Inr ib \<and>
        compareCurrencies a b = Inr (if ra \<noteq> rb then ra - rb else ia - ib)) \<and>
     ((compareCurrencies a b = Inr 0) = (a = b)) \<and>
     (\<forall>m. compareCurrencies a b = Inr m \<longrightarrow> compareCurrencies b a = Inr (- m)) \<and>
     (\<forall>m n. compareCurrencies a b = Inr m \<and> m < 0 \<and> compareCurrencies b c = Inr n \<and> n < 0
        \<longrightarrow> (\<exists>k<0. compareCurrencies a c = Inr k)) \<and>
     map (map_of currencyTypeToIndexMap)
       [''NativeToken'', ''ForeignAsset'', ''LendToken'', ''LpToken'', ''StableLpToken''] =
       [Some 0, Some 1, Some 2, Some 3, Some 4] \<and>
     map (\<lambda>t. currencyToIndex (NativeToken t)) [DOT, IBTC, INTR, KSM, KBTC, KINT] =
       [Inr 0, Inr 1, Inr 2, Inr 10, Inr 11, Inr 12] \<and>
     currencyToIndex (ForeignAsset i) = Inr i \<and> currencyToIndex (LendToken i) = Inr i \<and>
     currencyToIndex (StableLpToken i) = Inr i"
proof -
  obtain ra ia where a:
    "map_of currencyTypeToIndexMap (isTypeOf a) = Some ra" "currencyToIndex a = Inr ia"
    using supported_rank_index [OF assms(1)] by blast
  obtain rb ib where b:
    "map_of currencyTypeToIndexMap (isTypeOf b) = Some rb" "currencyToIndex b = Inr ib"
    using supported_rank_index [OF assms(2)] by blast
  have 1: "\<exists>ra rb ia ib.
        map_of currencyTypeToIndexMap (isTypeOf a) = Some ra \<and>
        map_of currencyTypeToIndexMap (isTypeOf b) = Some rb \<and>
        currencyToIndex a = Inr ia \<and> currencyToIndex b = Inr ib \<and>
        compareCurrencies a b = Inr (if ra \<noteq> rb then ra - rb else ia - ib)"
    using a b compareCurrencies_lex [OF a(1) b(1) a(2) b(2)] by blast
  have 2: "(compareCurrencies a b = Inr 0) = (a = b)"
    by (rule compareCurrencies_zero_iff [OF assms(1,2)])
  have 3: "\<forall>m. compareCurrencies a b = Inr m \<longrightarrow> compareCurrencies b a = Inr (- m)"
    by (simp add: compareCurrencies_flip [of b a])
  have 4: "\<forall>m n. compareCurrencies a b = Inr m \<and> m < 0 \<and> compareCurrencies b c = Inr n \<and> n < 0
        \<longrightarrow> (\<exists>k<0. compareCurrencies a c = Inr k)"
    using compareCurrencies_trans [OF assms] by blast
  have 5: "map (map_of currencyTypeToIndexMap)
       [''NativeToken'', ''ForeignAsset'', ''LendToken'', ''LpToken'', ''StableLpToken''] =
       [Some 0, Some 1, Some 2, Some 3, Some 4]"
    by (simp add: typeIndex_lookup)
  have 6: "map (\<lambda>t. currencyToIndex (NativeToken t)) [DOT, IBTC, INTR, KSM, KBTC, KINT] =
       [Inr 0, Inr 1, Inr 2, Inr 10, Inr 11, Inr 12]"
    by (simp add: tokenIndex_lookup)
  show ?thesis using 1 2 3 4 5 6 by simp
qed

theorem compareCurrencies_total_order_witness:
  "isTypeOf (NativeToken DOT) \<noteq> ''LpTokenPair'' \<and> isTypeOf (NativeToken KSM) \<noteq> ''LpTokenPair'' \<and>
   isTypeOf (ForeignAsset 2) \<noteq> ''LpTokenPair'' \<and>
   compareCurrencies (NativeToken DOT) (NativeToken KSM) = Inr (- 10) \<and>
   compareCurrencies (NativeToken KSM) (NativeToken DOT) = Inr 10 \<and>
   compareCurrencies (NativeToken KSM) (ForeignAsset 2) = Inr (- 1) \<and>
   (\<exists>k<0. compareCurrencies (NativeToken DOT) (ForeignAsset 2) = Inr k)"
proof -
  have h: "isTypeOf (NativeToken DOT) \<noteq> ''LpTokenPair''"
    "isTypeOf (NativeToken KSM) \<noteq> ''LpTokenPair''" "isTypeOf (ForeignAsset 2) \<noteq> ''LpTokenPair''"
    by simp_all
  have ab: "compareCurrencies (NativeToken DOT) (NativeToken KSM) = Inr (- 10)"
    by (simp add: compareCurrencies_def compareCurrencyType_def tokenIndex_lookup)
  have bc: "compareCurrencies (NativeToken KSM) (ForeignAsset 2) = Inr (- 1)"
    by (simp add: compareCurrencies_def compareCurrencyType_def typeIndex_lookup)
  show ?thesis
    using h ab bc compareCurrencies_total_order [OF h, of 0] by simp
qed

lemma orderCurrencies_sorted_permutation:
  assumes "orderCurrencies a b = Inr (lo, hi)"
  shows "((lo, hi) = (a, b) \<or> (lo, hi) = (b, a)) \<and> (\<exists>n\<le>0. compareCurrencies lo hi = Inr n)"
proof (cases "compareCurrencies a b")
  case (Inl e)
  with assms show ?thesis by (simp add: orderCurrencies_def)
next
  case (Inr c)
  show ?thesis
  proof (cases "c > 0")
    case True
    with Inr assms have "(lo, hi) = (b, a)" by (simp add: orderCurrencies_def)
    moreover have "compareCurrencies b a = Inr (- c)"
      using Inr by (simp add: compareCurrencies_flip [of b a])
    ultimately show ?thesis using True by auto
  next
    case False
    with Inr assms have "(lo, hi) = (a, b)" by (simp add: orderCurrencies_def)
    with Inr False show ?thesis by auto
  qed
qed

lemma orderCurrencies_error:
  "(orderCurrencies a b = Inl e) = (compareCurrencies a b = Inl e)"
  by (simp add: orderCurrencies_def split: sum.splits)

lemma inferGeneralPoolId_error:
  "(inferGeneralPoolId a b = Inl e) = (compareCurrencies a b = Inl e)"
  by (simp add: inferGeneralPoolId_def orderCurrencies_def split: sum.splits)

lemma orderCurrencies_supported:
  assumes "isTypeOf a \<noteq> ''LpTokenPair''" and "isTypeOf b \<noteq> ''LpTokenPair''"
  shows "\<exists>lo hi. orderCurrencies a b = Inr (lo, hi)"
proof -
  obtain ra ia where a:
    "map_of currencyTypeToIndexMap (isTypeOf a) = Some ra" "currencyToIndex a = Inr ia"
    using supported_rank_index [OF assms(1)] by blast
  obtain rb ib where b:
    "map_of currencyTypeToIndexMap (isTypeOf b) = Some rb" "currencyToIndex b = Inr ib"
    using supported_rank_index [OF assms(2)] by blast
  show ?thesis
    by (simp add: orderCurrencies_def compareCurrencies_lex [OF a(1) b(1) a(2) b(2)])
qed

text \<open>
  C2. Canonicalization does not depend on the order of the inputs. For all assets \<open>a\<close> and
  \<open>b\<close>, \<open>compareCurrencies b a\<close> is the negation of \<open>compareCurrencies a b\<close> (and raises
  the same error where that one raises), \<open>orderCurrencies\<close> returns the same ordered pair
  for \<open>(a, b)\<close> and \<open>(b, a)\<close>, and \<open>inferGeneralPoolId\<close> returns the same key for both.
  The ordered pair \<open>(lo, hi)\<close> consists of the two inputs themselves, in ascending order
  (\<open>compareCurrencies lo hi\<close> is not positive), and the key is \<open>(lo,hi)\<close>, written with the
  stringifications of \<open>lo\<close> and \<open>hi\<close>. Ordering and key fail exactly when the comparison
  raises, with its error, and they succeed for every two assets of the variants NativeToken,
  ForeignAsset, LendToken and StableLpToken.
\<close>

theorem canonicalization_order_independent:
  "compareCurrencies b a = map_sum id uminus (compareCurrencies a b) \<and>
   orderCurrencies a b = orderCurrencies b a \<and>
   inferGeneralPoolId a b = inferGeneralPoolId b a \<and>
   inferGeneralPoolId a b =
     map_sum id (\<lambda>(lo, hi). ''('' @ currencyToString lo @ '','' @ currencyToString hi @ '')'')
       (orderCurrencies a b) \<and>
   (\<forall>lo hi. orderCurrencies a b = Inr (lo, hi) \<longrightarrow>
      ((lo, hi) = (a, b) \<or> (lo, hi) = (b, a)) \<and>
      (\<exists>n\<le>0. compareCurrencies lo hi = Inr n) \<and>
      inferGeneralPoolId a b =
        Inr (''('' @ currencyToString lo @ '','' @ currencyToString hi @ '')'') \<and>
      inferGeneralPoolId b a =
        Inr (''('' @ currencyToString lo @ '','' @ currencyToString hi @ '')'')) \<and>
   (\<forall>e. (orderCurrencies a b = Inl e) = (compareCurrencies a b = Inl e)) \<and>
   (\<forall>e. (inferGeneralPoolId a b = Inl e) = (compareCurrencies a b = Inl e)) \<and>
   (isTypeOf a \<noteq> ''LpTokenPair'' \<and> isTypeOf b \<noteq> ''LpTokenPair'' \<longrightarrow>
      (\<exists>lo hi. orderCurrencies a b = Inr (lo, hi)))"
proof -
  have flip: "compareCurrencies b a = map_sum id uminus (compareCurrencies a b)"
    by (rule compareCurrencies_flip)
  have ord: "orderCurrencies a b = orderCurrencies b a"
  proof (cases "compareCurrencies a b")
    case (Inl e)
    then show ?thesis by (simp add: orderCurrencies_def flip)
  next
    case (Inr n)
    show ?thesis
    proof (cases "n = 0")
      case True
      with Inr have "a = b"
        using compareCurrencies_zero_supported [of a b] compareCurrencies_zero_iff [of a b]
        by simp
      then show ?thesis by simp
    next
      case False
      with Inr show ?thesis by (simp add: orderCurrencies_def flip)
    qed
  qed
  have key: "inferGeneralPoolId a b =
     map_sum id (\<lambda>(lo, hi). ''('' @ currencyToString lo @ '','' @ currencyToString hi @ '')'')
       (orderCurrencies a b)"
    by (simp add: inferGeneralPoolId_def split: sum.splits)
  have sym: "inferGeneralPoolId a b = inferGeneralPoolId b a"
    by (simp add: inferGeneralPoolId_def ord)
  have sorted: "\<forall>lo hi. orderCurrencies a b = Inr (lo, hi) \<longrightarrow>
      ((lo, hi) = (a, b) \<or> (lo, hi) = (b, a)) \<and>
      (\<exists>n\<le>0. compareCurrencies lo hi = Inr n) \<and>
      inferGeneralPoolId a b =
        Inr (''('' @ currencyToString lo @ '','' @ currencyToString hi @ '')'') \<and>
      inferGeneralPoolId b a =
        Inr (''('' @ currencyToString lo @ '','' @ currencyToString hi @ '')'')"
  proof (intro allI impI)
    fix lo hi
    assume o: "orderCurrencies a b = Inr (lo, hi)"
    have k: "inferGeneralPoolId a b =
        Inr (''('' @ currencyToString lo @ '','' @ currencyToString hi @ '')'')"
      by (simp add: inferGeneralPoolId_def o)
    show "((lo, hi) = (a, b) \<or> (lo, hi) = (b, a)) \<and>
      (\<exists>n\<le>0. compareCurrencies lo hi = Inr n) \<and>
      inferGeneralPoolId a b =
        Inr (''('' @ currencyToString lo @ '','' @ currencyToString hi @ '')'') \<and>
      inferGeneralPoolId b a =
        Inr (''('' @ currencyToString lo @ '','' @ currencyToString hi @ '')'')"
      using orderCurrencies_sorted_permutation [OF o] k sym by simp
  qed
  have err: "\<forall>e. (orderCurrencies a b = Inl e) = (compareCurrencies a b = Inl e)"
    "\<forall>e. (inferGeneralPoolId a b = Inl e) = (compareCurrencies a b = Inl e)"
    by (simp_all add: orderCurrencies_error inferGeneralPoolId_error)
  have tot: "isTypeOf a \<noteq> ''LpTokenPair'' \<and> isTypeOf b \<noteq> ''LpTokenPair'' \<longrightarrow>
      (\<exists>lo hi. orderCurrencies a b = Inr (lo, hi))"
    using orderCurrencies_supported by blast
  from flip ord key sym sorted err tot show ?thesis by blast
qed

theorem canonicalization_order_independent_witness:
  "isTypeOf (ForeignAsset 12) \<noteq> ''LpTokenPair'' \<and> isTypeOf (NativeToken DOT) \<noteq> ''LpTokenPair'' \<and>
   compareCurrencies (ForeignAsset 12) (NativeToken DOT) = Inr 1 \<and>
   compareCurrencies (NativeToken DOT) (ForeignAsset 12) = Inr (- 1) \<and>
   orderCurrencies (ForeignAsset 12) (NativeToken DOT) = Inr (NativeToken DOT, ForeignAsset 12) \<and>
   orderCurrencies (NativeToken DOT) (ForeignAsset 12) = Inr (NativeToken DOT, ForeignAsset 12) \<and>
   inferGeneralPoolId (ForeignAsset 12) (NativeToken DOT) = Inr ''(DOT,12)'' \<and>
   inferGeneralPoolId (NativeToken DOT) (ForeignAsset 12) = Inr ''(DOT,12)''"
proof -
  have c: "compareCurrencies (ForeignAsset 12) (NativeToken DOT) = Inr 1"
    by (simp add: compareCurrencies_def compareCurrencyType_def typeIndex_lookup)
  have o: "orderCurrencies (ForeignAsset 12) (NativeToken DOT) =
      Inr (NativeToken DOT, ForeignAsset 12)"
    by (simp add: orderCurrencies_def c)
  have d: "digitsOf 12 = ''12''"
    by (simp add: digitsOf.simps [of 12] digitsOf.simps [of 1] char_of_def bit_0)
  have s: "currencyToString (NativeToken DOT) = ''DOT''"
    "currencyToString (ForeignAsset 12) = ''12''"
    by (simp_all add: Number_toString_def d char_of_def bit_0)
  show ?thesis
    using canonicalization_order_independent [of "NativeToken DOT" "ForeignAsset 12"] c o s
    by simp
qed

text \<open>
  C10. Legacy currency decoding normalizes the renamed token: \<open>legacyCurrencyId.encode\<close>
  returns a NativeToken for every legacy token kind, namely the token of the same name, and
  the token IBTC for the kind \<open>INTERBTC\<close> as for the kind \<open>IBTC\<close>. For each of the six
  token names the legacy decoding and the current decoding give the same currency, and so
  the same canonical key, which is the token's name; the key of the kind \<open>INTERBTC\<close> is
  \<open>IBTC\<close>.
\<close>

theorem legacyCurrencyId_encode_normalizes:
  "legacyCurrencyId_encode kind =
     Some (NativeToken
       (case kind of Kind_DOT \<Rightarrow> DOT | Kind_INTERBTC \<Rightarrow> IBTC | Kind_IBTC \<Rightarrow> IBTC
        | Kind_INTR \<Rightarrow> INTR | Kind_KSM \<Rightarrow> KSM | Kind_KBTC \<Rightarrow> KBTC | Kind_KINT \<Rightarrow> KINT)) \<and>
   (\<exists>t. legacyCurrencyId_encode kind = Some (NativeToken t)) \<and>
   legacyCurrencyId_encode Kind_INTERBTC = Some (NativeToken IBTC) \<and>
   legacyCurrencyId_encode Kind_INTERBTC = legacyCurrencyId_encode Kind_IBTC \<and>
   map legacyCurrencyId_encode [Kind_DOT, Kind_IBTC, Kind_INTR, Kind_KSM, Kind_KBTC, Kind_KINT] =
     map (\<lambda>t. Some (currencyId_encode (CurrencyId_Token t))) [DOT, IBTC, INTR, KSM, KBTC, KINT] \<and>
   map (\<lambda>k. map_option currencyToString (legacyCurrencyId_encode k))
     [Kind_DOT, Kind_INTERBTC, Kind_IBTC, Kind_INTR, Kind_KSM, Kind_KBTC, Kind_KINT] =
     [Some ''DOT'', Some ''IBTC'', Some ''IBTC'', Some ''INTR'', Some ''KSM'', Some ''KBTC'',
      Some ''KINT''] \<and>
   map (\<lambda>t. currencyToString (currencyId_encode (CurrencyId_Token t)))
     [DOT, IBTC, INTR, KSM, KBTC, KINT] =
     [''DOT'', ''IBTC'', ''INTR'', ''KSM'', ''KBTC'', ''KINT''] \<and>
   map_option currencyToString (legacyCurrencyId_encode Kind_INTERBTC) =
     Some (currencyToString (currencyId_encode (CurrencyId_Token IBTC))) \<and>
   map_option currencyToString (legacyCurrencyId_encode Kind_INTERBTC) = Some ''IBTC''"
  by (cases kind) (simp_all add: legacyCurrencyId_encode_def)

section \<open>Properties of the exchange-rate history\<close>




section \<open>Properties of the stable-pool membership lookup\<close>

lemma getStablePoolCurrencyByIndex_hit:
  assumes "stablePoolCurrenciesCache st poolId = Some currencies"
    and "index < length currencies"
  shows "getStablePoolCurrencyByIndex rawPoolStorage poolId index st =
    (Inr (currencies ! index), st)"
  using assms by (simp add: getStablePoolCurrencyByIndex_def)

lemma getStablePoolCurrencyByIndex_miss:
  assumes "\<forall>currencies. stablePoolCurrenciesCache st poolId = Some currencies \<longrightarrow>
             length currencies \<le> index"
  shows "getStablePoolCurrencyByIndex rawPoolStorage poolId index st =
     (case rawPoolStorage of
        StablePools_NotExists \<Rightarrow> (Inl StablePoolsStorageNotDefined, st)
      | StablePools_V1021000 getAs \<Rightarrow>
          (case getAs poolId of
             None \<Rightarrow> (Inl (StablePoolNotFound poolId), readPool poolId st)
           | Some (Pool_Base currencyIds) \<Rightarrow>
               storePoolCurrencies poolId index currencyIds (readPool poolId st)
           | Some (Pool_Meta currencyIds) \<Rightarrow>
               storePoolCurrencies poolId index currencyIds (readPool poolId st)
           | Some (Pool_Unexpected kind) \<Rightarrow>
               (Inl (UnexpectedPoolType poolId kind), readPool poolId st))
      | StablePools_OtherVersion \<Rightarrow> (Inl UnknownStablePoolsStorageVersion, st))"
proof -
  have "(case stablePoolCurrenciesCache st poolId of
           Some currencies \<Rightarrow>
             if length currencies > index then Some (currencies ! index) else None
         | None \<Rightarrow> None) = None"
    using assms by (auto split: option.splits)
  then show ?thesis by (simp add: getStablePoolCurrencyByIndex_def)
qed







section \<open>Properties of the handlers\<close>

lemma activatedMarket_decoded:
  assumes "event item = V1020000 cid \<or> event item = V1021000 \<lparr>am_underlyingCurrencyId = cid\<rparr>"
  shows "activatedMarket store_get blockToHeight blk item st =
    (let currency = currencyId_encode cid
     in case store_get (''loanMarket_'' @ currencyToString currency) of
          None \<Rightarrow>
            (None,
             logLine (LogWarn
               ''WARNING: ActivatedMarket event did not match any existing LoanMarkets! Skipping.'')
               st)
        | Some marketDb \<Rightarrow>
            (None,
             logLine (ConsoleLog (''Activated '' @ market_id marketDb))
               (pushEntity ''LoanMarket''
                  (E_LoanMarket
                     (marketDb\<lparr>market_state := Active,
                               market_activation := Some (market_id marketDb)\<rparr>))
                  (pushEntity ''LoanMarketActivation''
                     (E_LoanMarketActivation
                        \<lparr>activation_id = market_id marketDb,
                         activation_market = market_id marketDb,
                         activation_token = currency,
                         activation_height = blockToHeight (height blk) ''ActivatedMarket'',
                         activation_timestamp = timestamp blk\<rparr>)
                     st))))"
  using assms by (auto simp: activatedMarket_def Let_def split: option.splits)

lemma dexStableCurrencyExchange_pool_not_found:
  assumes ev: "event item = V1021000 e"
    and miss: "\<forall>currencies. stablePoolCurrenciesCache st (ce_poolId e) = Some currencies \<longrightarrow>
      length currencies \<le> max (ce_inIndex e) (ce_outIndex e)"
    and storage: "rawPoolStorage = StablePools_V1021000 getAs"
    and absent: "getAs (ce_poolId e) = None"
  shows "dexStableCurrencyExchange rawPoolStorage isPooledToken address_encode updPool updVA
      updTV updCA updTC blk item st =
    (Some (StablePoolNotFound (ce_poolId e)), readPool (ce_poolId e) st)"
proof (cases "\<forall>currencies. stablePoolCurrenciesCache st (ce_poolId e) = Some currencies \<longrightarrow>
      length currencies \<le> ce_outIndex e")
  case True
  show ?thesis
    by (simp add: dexStableCurrencyExchange_def ev Let_def
        getStablePoolCurrencyByIndex_miss [OF True] storage absent)
next
  case False
  then obtain currencies where c: "stablePoolCurrenciesCache st (ce_poolId e) = Some currencies"
    "ce_outIndex e < length currencies"
    by auto
  with miss have "\<forall>currencies. stablePoolCurrenciesCache st (ce_poolId e) = Some currencies \<longrightarrow>
      length currencies \<le> ce_inIndex e"
    by auto
  then show ?thesis
    by (simp add: dexStableCurrencyExchange_def ev Let_def
        getStablePoolCurrencyByIndex_hit [OF c]
        getStablePoolCurrencyByIndex_miss storage absent)
qed

text \<open>
  C8, as stated, fails: a stable pool id that storage does not hold is not skipped. With an
  empty cache and no pool 5 in storage, the error raised by the membership lookup leaves
  \<open>dexStableCurrencyExchange\<close>.
\<close>

theorem missing_stable_pool_raises_counterexample:
  "fst (dexStableCurrencyExchange (StablePools_V1021000 (\<lambda>poolId. None)) (\<lambda>c. True)
          (\<lambda>a. ''5Account'')
          (\<lambda>t p d buf. ()) (\<lambda>t a acc buf. ()) (\<lambda>t a buf. ()) (\<lambda>t acc buf. ()) (\<lambda>t buf. ())
          \<lparr>height = 12, timestamp = 1670000000000\<rparr>
          (\<lparr>event_id = ''0000000012-000003-a1b2c'',
            event = V1021000 \<lparr>ce_poolId = 5, ce_inIndex = 0, ce_outIndex = 1, ce_inAmount = 100,
                              ce_outAmount = 99, ce_who = []\<rparr>\<rparr>
             :: (unit, CurrencyExchangeV1021000) EventItem)
          (\<lparr>logLines = [], pushEntityCalls = [], stablePoolCurrenciesCache = Map.empty,
            cachedRates = [], poolStorageReads = []\<rparr> :: (unit, unit, unit) HandlerState)) =
     Some (StablePoolNotFound 5)"
  by (simp add: dexStableCurrencyExchange_def getStablePoolCurrencyByIndex_def Let_def)

text \<open>
  C8, amended. A market-activation event whose LoanMarket does not exist is logged as a
  warning and skipped: no record is emitted and no error leaves the handler. A stable-pool
  exchange on a pool id that is neither cached with both indices nor found in storage is not
  skipped: the lookup raises an error naming the pool id, and this error leaves
  \<open>dexStableCurrencyExchange\<close>, which has emitted no record and logged nothing.
\<close>

theorem missing_upstream_state:
  "((event item = V1020000 cid \<or> event item = V1021000 \<lparr>am_underlyingCurrencyId = cid\<rparr>) \<and>
    store_get (''loanMarket_'' @ currencyToString (currencyId_encode cid)) = None \<longrightarrow>
      activatedMarket store_get blockToHeight blk item st =
        (None,
         st\<lparr>logLines := logLines st @
           [LogWarn
              ''WARNING: ActivatedMarket event did not match any existing LoanMarkets! Skipping.'']\<rparr>)) \<and>
   (event item' = V1021000 e \<and>
    (\<forall>currencies. stablePoolCurrenciesCache st (ce_poolId e) = Some currencies \<longrightarrow>
       length currencies \<le> max (ce_inIndex e) (ce_outIndex e)) \<and>
    rawPoolStorage = StablePools_V1021000 getAs \<and> getAs (ce_poolId e) = None \<longrightarrow>
      dexStableCurrencyExchange rawPoolStorage isPooledToken address_encode updPool updVA
          updTV updCA updTC blk item' st =
        (Some (StablePoolNotFound (ce_poolId e)),
         st\<lparr>poolStorageReads := poolStorageReads st @ [ce_poolId e]\<rparr>))"
proof (intro conjI impI)
  assume "(event item = V1020000 cid \<or> event item = V1021000 \<lparr>am_underlyingCurrencyId = cid\<rparr>) \<and>
    store_get (''loanMarket_'' @ currencyToString (currencyId_encode cid)) = None"
  then show "activatedMarket store_get blockToHeight blk item st =
        (None,
         st\<lparr>logLines := logLines st @
           [LogWarn
              ''WARNING: ActivatedMarket event did not match any existing LoanMarkets! Skipping.'']\<rparr>)"
    using activatedMarket_decoded [of item cid store_get blockToHeight blk st]
    by (simp add: Let_def logLine_def)
next
  assume "event item' = V1021000 e \<and>
    (\<forall>currencies. stablePoolCurrenciesCache st (ce_poolId e) = Some currencies \<longrightarrow>
       length currencies \<le> max (ce_inIndex e) (ce_outIndex e)) \<and>
    rawPoolStorage = StablePools_V1021000 getAs \<and> getAs (ce_poolId e) = None"
  then show "dexStableCurrencyExchange rawPoolStorage isPooledToken address_encode updPool updVA
          updTV updCA updTC blk item' st =
        (Some (StablePoolNotFound (ce_poolId e)),
         st\<lparr>poolStorageReads := poolStorageReads st @ [ce_poolId e]\<rparr>)"
    using dexStableCurrencyExchange_pool_not_found
      [where item = item' and e = e and st = st and rawPoolStorage = rawPoolStorage
         and getAs = getAs]
    by (simp add: readPool_def)
qed

theorem missing_upstream_state_witness:
  "(let st0 = \<lparr>logLines = [], pushEntityCalls = [], stablePoolCurrenciesCache = Map.empty,
               cachedRates = [], poolStorageReads = []\<rparr> :: (unit, unit, unit) HandlerState;
        blk = \<lparr>height = 12, timestamp = 1670000000000\<rparr>;
        activation = \<lparr>event_id = ''0000000012-000002-a1b2c'',
                      event = V1021000 \<lparr>am_underlyingCurrencyId = CurrencyId_Token DOT\<rparr>\<rparr>
          :: (CurrencyId, ActivatedMarketV1021000) EventItem;
        e = \<lparr>ce_poolId = 5, ce_inIndex = 0, ce_outIndex = 1, ce_inAmount = 100,
              ce_outAmount = 99, ce_who = []\<rparr>;
        exchange = \<lparr>event_id = ''0000000012-000003-a1b2c'', event = V1021000 e\<rparr>
          :: (unit, CurrencyExchangeV1021000) EventItem
    in activatedMarket (\<lambda>ident. None :: unit LoanMarket option) (\<lambda>h label. ()) blk activation st0 =
         (None,
          st0\<lparr>logLines :=
            [LogWarn
               ''WARNING: ActivatedMarket event did not match any existing LoanMarkets! Skipping.'']\<rparr>) \<and>
       stablePoolCurrenciesCache st0 5 = None \<and>
       dexStableCurrencyExchange (StablePools_V1021000 (\<lambda>poolId. None)) (\<lambda>c. True)
           (\<lambda>a. ''5Account'')
           (\<lambda>t p d buf. ()) (\<lambda>t a acc buf. ()) (\<lambda>t a buf. ()) (\<lambda>t acc buf. ()) (\<lambda>t buf. ())
           blk exchange st0 =
         (Some (StablePoolNotFound 5), st0\<lparr>poolStorageReads := [5]\<rparr>))"
proof -
  define st0 :: "(unit, unit, unit) HandlerState" where
    "st0 = \<lparr>logLines = [], pushEntityCalls = [], stablePoolCurrenciesCache = Map.empty,
            cachedRates = [], poolStorageReads = []\<rparr>"
  define blk where "blk = \<lparr>height = 12, timestamp = 1670000000000\<rparr>"
  define activation :: "(CurrencyId, ActivatedMarketV1021000) EventItem" where
    "activation = \<lparr>event_id = ''0000000012-000002-a1b2c'',
                   event = V1021000 \<lparr>am_underlyingCurrencyId = CurrencyId_Token DOT\<rparr>\<rparr>"
  define e where
    "e = \<lparr>ce_poolId = 5, ce_inIndex = 0, ce_outIndex = 1, ce_inAmount = 100,
          ce_outAmount = 99, ce_who = []\<rparr>"
  define exchange :: "(unit, CurrencyExchangeV1021000) EventItem" where
    "exchange = \<lparr>event_id = ''0000000012-000003-a1b2c'', event = V1021000 e\<rparr>"
  note defs = st0_def blk_def activation_def e_def exchange_def
  note T = missing_upstream_state
    [where item = activation and cid = "CurrencyId_Token DOT"
       and store_get = "\<lambda>ident. None :: unit LoanMarket option"
       and blockToHeight = "\<lambda>h label. ()" and blk = blk and st = st0
       and item' = exchange and e = e
       and rawPoolStorage = "StablePools_V1021000 (\<lambda>poolId. None)"
       and getAs = "\<lambda>poolId. None"
       and isPooledToken = "\<lambda>c. True" and address_encode = "\<lambda>a. ''5Account''"
       and updPool = "\<lambda>t p d buf. ()" and updVA = "\<lambda>t a acc buf. ()"
       and updTV = "\<lambda>t a buf. ()" and updCA = "\<lambda>t acc buf. ()" and updTC = "\<lambda>t buf. ()"]
  have h: "event activation = V1021000 \<lparr>am_underlyingCurrencyId = CurrencyId_Token DOT\<rparr>"
    "event exchange = V1021000 e" "stablePoolCurrenciesCache st0 (ce_poolId e) = None"
    "ce_poolId e = 5" "logLines st0 = []" "poolStorageReads st0 = []"
    "stablePoolCurrenciesCache st0 5 = None"
    by (simp_all add: defs)
  have "activatedMarket (\<lambda>ident. None :: unit LoanMarket option) (\<lambda>h label. ()) blk activation st0 =
         (None,
          st0\<lparr>logLines :=
            [LogWarn
               ''WARNING: ActivatedMarket event did not match any existing LoanMarkets! Skipping.'']\<rparr>) \<and>
       stablePoolCurrenciesCache st0 5 = None \<and>
       dexStableCurrencyExchange (StablePools_V1021000 (\<lambda>poolId. None)) (\<lambda>c. True)
           (\<lambda>a. ''5Account'')
           (\<lambda>t p d buf. ()) (\<lambda>t a acc buf. ()) (\<lambda>t a buf. ()) (\<lambda>t acc buf. ()) (\<lambda>t buf. ())
           blk exchange st0 =
         (Some (StablePoolNotFound 5), st0\<lparr>poolStorageReads := [5]\<rparr>)"
    using T h by simp
  then show ?thesis
    unfolding defs Let_def .
qed














lemma unknown_version_skipped:
  "borrow blockToHeight address_encode commentText blk
     \<lparr>event_id = eid, event = OtherSpecVersion\<rparr> st =
     (None, st\<lparr>logLines := logLines st @ [LogWarn ''UNKOWN EVENT VERSION: LoansBorrowedEvent'']\<rparr>)"
  "depositForLending blockToHeight address_encode commentText' blk
     \<lparr>event_id = eid, event = OtherSpecVersion\<rparr> st =
     (None, st\<lparr>logLines := logLines st @ [LogWarn ''UNKOWN EVENT VERSION: LoansDepositedEvent'']\<rparr>)"
  "activatedMarket store_get blockToHeight blk \<lparr>event_id = eid, event = OtherSpecVersion\<rparr> st =
     (None,
      st\<lparr>logLines := logLines st @ [LogWarn ''UNKOWN EVENT VERSION: LoansActivatedMarketEvent'']\<rparr>)"
  "dexGeneralAssetSwap isPooledToken address_encode updPool updVA updTV updCA updTC blk
     \<lparr>event_id = eid, event = OtherSpecVersion\<rparr> st =
     (None, st\<lparr>logLines := logLines st @ [LogWarn ''UNKOWN EVENT VERSION: DexGeneral.AssetSwap'']\<rparr>)"
  "dexStableCurrencyExchange rawPoolStorage isPooledToken' address_encode updStable updVA' updTV'
     updCA updTC blk \<lparr>event_id = eid, event = OtherSpecVersion\<rparr> st =
     (None,
      st\<lparr>logLines := logLines st @ [LogWarn ''UNKOWN EVENT VERSION: DexStable.CurrencyExchange'']\<rparr>)"
  by (simp_all add: borrow_def depositForLending_def activatedMarket_def dexGeneralAssetSwap_def
      dexStableCurrencyExchange_def logLine_def)

lemma loan_and_deposit_carry_event_id:
  assumes "event item = V1020000 (accountId', cid, amount) \<or>
    event item = V1021000 \<lparr>ev_accountId = accountId', ev_currencyId = cid, ev_amount = amount\<rparr>"
  shows "\<exists>loan.
      borrow blockToHeight address_encode commentText blk item st =
        (None, st\<lparr>pushEntityCalls := pushEntityCalls st @ [(''Loan'', E_Loan loan)]\<rparr>) \<and>
      loan_id loan = event_id item"
    and "\<exists>deposit.
      depositForLending blockToHeight address_encode commentText' blk item st =
        (None, st\<lparr>pushEntityCalls := pushEntityCalls st @ [(''Deposit'', E_Deposit deposit)]\<rparr>) \<and>
      deposit_id deposit = event_id item"
  using assms by (auto simp: borrow_def depositForLending_def Let_def pushEntity_def)

lemma buildNewSwapEntity_feeRate_cases:
  "buildNewSwapEntity_feeRate dexGeneralStorage Stable swapDetails = Inr 0"
  "compareCurrencies (currency (swapFrom swapDetails)) (currency (swapTo swapDetails)) = Inr c \<Longrightarrow>
   buildNewSwapEntity_feeRate (PairStatuses_V1021000 getAs) Standard swapDetails =
     Inr (case getAs (if c < 0
                      then (currencyId (swapFrom swapDetails), currencyId (swapTo swapDetails))
                      else (currencyId (swapTo swapDetails), currencyId (swapFrom swapDetails))) of
            Trading feeRate \<Rightarrow> of_int feeRate / 10000
          | _ \<Rightarrow> 0)"
  by (simp_all add: buildNewSwapEntity_feeRate_def Let_def split: PairStatus.splits)

lemma buildNewSwapEntity_raises:
  "\<exists>e. buildNewSwapEntity dexGeneralStorage createPooledAmount render BigInt_of poolType
     swapDetails h blockTimestamp = Inl e"
  by (simp add: buildNewSwapEntity_def Big_toPrecision_def split: sum.splits)

text \<open>
  C3 does not hold of \<open>accrueInterest\<close>. The handler has no rule for any spec version but
  1021000 and does not look at the version before decoding: for an event of another spec
  version, whatever the generated getter does, either an exception leaves the handler or an
  InterestAccrual record is pushed with no warning recorded; never is the event skipped with
  a warning. With a getter that asserts the version, the assertion failure leaves the
  handler.
\<close>

theorem accrueInterest_unknown_version_not_skipped:
  "(case accrueInterest getter toFloat blockToHeight symbolFromCurrency numberText blk
           \<lparr>event_id = eid, event = OtherSpecVersion\<rparr> st of
      (Some err, st') \<Rightarrow> st' = st
    | (None, st') \<Rightarrow>
        logLines st' = logLines st \<and>
        length (pushEntityCalls st') = Suc (length (pushEntityCalls st))) \<and>
   accrueInterest (\<lambda>ev. case ev of V1021000 payload \<Rightarrow> Inr payload | _ \<Rightarrow> Inl AssertionFailed)
       toFloat blockToHeight symbolFromCurrency numberText blk
       \<lparr>event_id = eid, event = OtherSpecVersion\<rparr> st =
     (Some AssertionFailed, st)"
  by (simp add: accrueInterest_def Let_def pushEntity_def split: sum.splits)

text \<open>
  C6 does not hold of \<open>buildNewSwapEntity\<close>. For a standard-pool swap of 1000000 atomic
  units on a trading pair with a fee rate of 30 basis points, the fee rate is 0.003 and the
  product is 3000, but the amount is then formatted with \<open>toPrecision(0, RoundDown)\<close>,
  which rejects a precision of 0: the function raises and no fee amount is produced.
\<close>

theorem buildNewSwapEntity_fee_raises:
  "buildNewSwapEntity_feeRate (PairStatuses_V1021000 (\<lambda>key. Trading 30)) Standard
     \<lparr>swapFrom = \<lparr>currency = NativeToken DOT, atomicAmount = 1000000,
                   currencyId = CurrencyId_Token DOT, accountId = ''5Account''\<rparr>,
      swapTo = \<lparr>currency = NativeToken IBTC, atomicAmount = 2900,
                 currencyId = CurrencyId_Token IBTC, accountId = ''5Account''\<rparr>\<rparr> =
     Inr (3 / 1000) \<and>
   (3 / 1000 :: rat) * of_int 1000000 = 3000 \<and>
   buildNewSwapEntity (PairStatuses_V1021000 (\<lambda>key. Trading 30)) createPooledAmount render
     BigInt_of Standard
     \<lparr>swapFrom = \<lparr>currency = NativeToken DOT, atomicAmount = 1000000,
                   currencyId = CurrencyId_Token DOT, accountId = ''5Account''\<rparr>,
      swapTo = \<lparr>currency = NativeToken IBTC, atomicAmount = 2900,
                 currencyId = CurrencyId_Token IBTC, accountId = ''5Account''\<rparr>\<rparr>
     h blockTimestamp =
     Inl BigInvalidPrecision"
  by (simp add: buildNewSwapEntity_def buildNewSwapEntity_feeRate_def Big_toPrecision_def
      compareCurrencies_def compareCurrencyType_def tokenIndex_lookup)

text \<open>
  C9 does not hold of the Swap entity. \<open>buildNewSwapEntity\<close>, which alone constructs a
  Swap, is given neither the event nor its identifier and returns no Swap for any input: it
  raises when it formats the fee amount (the defect of C6), on a stable-pool swap of 1000000
  atomic units as on every other, and the constructor call it would reach names the fixed id
  \<open>abc\<close>. So no Swap carrying the identifier of its event is ever built. The handlers
  \<open>borrow\<close> and \<open>depositForLending\<close>, by contrast, push a Loan and a Deposit whose id is
  the identifier of the event.
\<close>

theorem swap_entity_never_carries_event_id:
  "buildNewSwapEntity dexGeneralStorage createPooledAmount render BigInt_of poolType swapDetails
     h blockTimestamp \<noteq> Inr swap \<and>
   buildNewSwapEntity dexGeneralStorage createPooledAmount render BigInt_of Stable
     \<lparr>swapFrom = \<lparr>currency = NativeToken DOT, atomicAmount = 1000000,
                   currencyId = CurrencyId_Token DOT, accountId = ''5Account''\<rparr>,
      swapTo = \<lparr>currency = NativeToken IBTC, atomicAmount = 2900,
                 currencyId = CurrencyId_Token IBTC, accountId = ''5Account''\<rparr>\<rparr>
     h blockTimestamp =
     Inl BigInvalidPrecision \<and>
   swap_id (buildNewSwapEntity_entity h blockTimestamp swapDetails fromAmount toAmount
      feesAmount feeRate) = ''abc'' \<and>
   borrow blockToHeight address_encode commentText blk
     \<lparr>event_id = eid, event = V1021000 ev\<rparr> st =
     (None,
      st\<lparr>pushEntityCalls := pushEntityCalls st @
        [(''Loan'',
          E_Loan
            \<lparr>loan_id = eid,
             loan_height = blockToHeight (height blk) ''LoansBorrowed'',
             loan_timestamp = timestamp blk,
             loan_userParachainAddress = address_encode (ev_accountId ev),
             loan_token = currencyId_encode (ev_currencyId ev),
             loan_amountBorrowed = Some (ev_amount ev),
             loan_amountRepaid = None,
             loan_comment =
               commentText (address_encode (ev_accountId ev))
                 (currencyId_encode (ev_currencyId ev)) (ev_amount ev) (timestamp blk)\<rparr>)]\<rparr>) \<and>
   depositForLending blockToHeight address_encode commentText' blk
     \<lparr>event_id = eid, event = V1021000 ev\<rparr> st =
     (None,
      st\<lparr>pushEntityCalls := pushEntityCalls st @
        [(''Deposit'',
          E_Deposit
            \<lparr>deposit_id = eid,
             deposit_height = blockToHeight (height blk) ''Deposit'',
             deposit_timestamp = timestamp blk,
             deposit_userParachainAddress = address_encode (ev_accountId ev),
             deposit_token = currencyId_encode (ev_currencyId ev),
             deposit_amountDeposited = Some (ev_amount ev),
             deposit_amountWithdrawn = None,
             deposit_comment =
               commentText' (address_encode (ev_accountId ev))
                 (currencyId_encode (ev_currencyId ev)) (ev_amount ev)\<rparr>)]\<rparr>)"
proof -
  have never: "buildNewSwapEntity dexGeneralStorage createPooledAmount render BigInt_of poolType
      swapDetails h blockTimestamp \<noteq> Inr swap"
    by (simp add: buildNewSwapEntity_def Big_toPrecision_def split: sum.splits)
  have stable: "buildNewSwapEntity dexGeneralStorage createPooledAmount render BigInt_of Stable
     \<lparr>swapFrom = \<lparr>currency = NativeToken DOT, atomicAmount = 1000000,
                   currencyId = CurrencyId_Token DOT, accountId = ''5Account''\<rparr>,
      swapTo = \<lparr>currency = NativeToken IBTC, atomicAmount = 2900,
                 currencyId = CurrencyId_Token IBTC, accountId = ''5Account''\<rparr>\<rparr>
     h blockTimestamp =
     Inl BigInvalidPrecision"
    by (simp add: buildNewSwapEntity_def buildNewSwapEntity_feeRate_def Big_toPrecision_def)
  have ident: "swap_id (buildNewSwapEntity_entity h blockTimestamp swapDetails fromAmount toAmount
      feesAmount feeRate) = ''abc''"
    by (simp add: buildNewSwapEntity_entity_def)
  have loan: "borrow blockToHeight address_encode commentText blk
     \<lparr>event_id = eid, event = V1021000 ev\<rparr> st =
     (None,
      st\<lparr>pushEntityCalls := pushEntityCalls st @
        [(''Loan'',
          E_Loan
            \<lparr>loan_id = eid,
             loan_height = blockToHeight (height blk) ''LoansBorrowed'',
             loan_timestamp = timestamp blk,
             loan_userParachainAddress = address_encode (ev_accountId ev),
             loan_token = currencyId_encode (ev_currencyId ev),
             loan_amountBorrowed = Some (ev_amount ev),
             loan_amountRepaid = None,
             loan_comment =
               commentText (address_encode (ev_accountId ev))
                 (currencyId_encode (ev_currencyId ev)) (ev_amount ev) (timestamp blk)\<rparr>)]\<rparr>)"
    by (simp add: borrow_def Let_def pushEntity_def)
  have deposit: "depositForLending blockToHeight address_encode commentText' blk
     \<lparr>event_id = eid, event = V1021000 ev\<rparr> st =
     (None,
      st\<lparr>pushEntityCalls := pushEntityCalls st @
        [(''Deposit'',
          E_Deposit
            \<lparr>deposit_id = eid,
             deposit_height = blockToHeight (height blk) ''Deposit'',
             deposit_timestamp = timestamp blk,
             deposit_userParachainAddress = address_encode (ev_accountId ev),
             deposit_token = currencyId_encode (ev_currencyId ev),
             deposit_amountDeposited = Some (ev_amount ev),
             deposit_amountWithdrawn = None,
             deposit_comment =
               commentText' (address_encode (ev_accountId ev))
                 (currencyId_encode (ev_currencyId ev)) (ev_amount ev)\<rparr>)]\<rparr>)"
    by (simp add: depositForLending_def Let_def pushEntity_def)
  from never stable ident loan deposit show ?thesis by blast
qed

end
